theory Spec2Isabelle
  imports Complex_Main
begin

section \<open>Scalars\<close>

text \<open>
  The Go code computes on \<open>float32\<close>. The definitions below read every \<open>float32\<close> as a
  real number and every arithmetic operator as the exact operation on reals: they are the
  program without rounding, overflow to infinity and NaN. What they prove of a formula is
  its algebra. The rounded arithmetic of \<open>float32\<close>, and the functions whose rounding
  decides a statement, come in a section of their own further down.
\<close>

type_synonym float32 = real

text \<open>
  \<open>Sin\<close>, \<open>Cos\<close>, \<open>Sincos\<close>, \<open>Acos\<close>, \<open>Sqrt\<close> and \<open>Clamp\<close> belong to the package's
  utility file, which is not among the sources at hand; they are the \<open>float32\<close>
  versions of the standard functions.
\<close>

definition Sin :: "float32 \<Rightarrow> float32" where
  "Sin x = sin x"

definition Cos :: "float32 \<Rightarrow> float32" where
  "Cos x = cos x"

definition Sincos :: "float32 \<Rightarrow> float32 \<times> float32" where
  "Sincos x = (sin x, cos x)"

definition Acos :: "float32 \<Rightarrow> float32" where
  "Acos x = arccos x"

definition Sqrt :: "float32 \<Rightarrow> float32" where
  "Sqrt x = sqrt x"

definition Clamp :: "float32 \<Rightarrow> float32 \<Rightarrow> float32 \<Rightarrow> float32" where
  "Clamp a low high = (if a < low then low else if a > high then high else a)"

section \<open>Three-component vectors\<close>

text \<open>\<open>type Vec3 [3]float32\<close>: a fixed-size array, hence a triple.\<close>

datatype Vec3 = Vec3 float32 float32 float32

text \<open>
  Modelled from the spec: the methods of \<open>Vec3\<close> live in the vector file, which is not
  among the sources at hand. The specification describes them as component-wise
  add/sub/scale, dot product and cross product; the in-place variants (\<open>...Of\<close>,
  \<open>...With\<close>) store the same result in the receiver, so the model returns the
  receiver's new value.
\<close>

fun Vec3_Add :: "Vec3 \<Rightarrow> Vec3 \<Rightarrow> Vec3" where
  "Vec3_Add (Vec3 a0 a1 a2) (Vec3 b0 b1 b2) = Vec3 (a0 + b0) (a1 + b1) (a2 + b2)"

fun Vec3_Sub :: "Vec3 \<Rightarrow> Vec3 \<Rightarrow> Vec3" where
  "Vec3_Sub (Vec3 a0 a1 a2) (Vec3 b0 b1 b2) = Vec3 (a0 - b0) (a1 - b1) (a2 - b2)"

fun Vec3_Mul :: "Vec3 \<Rightarrow> float32 \<Rightarrow> Vec3" where
  "Vec3_Mul (Vec3 a0 a1 a2) c = Vec3 (a0 * c) (a1 * c) (a2 * c)"

fun Vec3_Dot :: "Vec3 \<Rightarrow> Vec3 \<Rightarrow> float32" where
  "Vec3_Dot (Vec3 a0 a1 a2) (Vec3 b0 b1 b2) = a0 * b0 + a1 * b1 + a2 * b2"

fun Vec3_Cross :: "Vec3 \<Rightarrow> Vec3 \<Rightarrow> Vec3" where
  "Vec3_Cross (Vec3 a0 a1 a2) (Vec3 b0 b1 b2) =
     Vec3 (a1 * b2 - a2 * b1) (a2 * b0 - a0 * b2) (a0 * b1 - a1 * b0)"

text \<open>\<open>v.CrossOf(a, b)\<close>: \<open>v = a \<times> b\<close>.\<close>

definition Vec3_CrossOf :: "Vec3 \<Rightarrow> Vec3 \<Rightarrow> Vec3" where
  "Vec3_CrossOf a b = Vec3_Cross a b"


text \<open>\<open>v.MulOf(c, a)\<close>: \<open>v = c * a\<close>.\<close>

definition Vec3_MulOf :: "float32 \<Rightarrow> Vec3 \<Rightarrow> Vec3" where
  "Vec3_MulOf c a = Vec3_Mul a c"

text \<open>\<open>v.AddOf(a, b)\<close>: \<open>v = a + b\<close>.\<close>

definition Vec3_AddOf :: "Vec3 \<Rightarrow> Vec3 \<Rightarrow> Vec3" where
  "Vec3_AddOf a b = Vec3_Add a b"


text \<open>\<open>v.AddScaledVec(f, a)\<close>: \<open>v = v + f * a\<close>.\<close>

definition Vec3_AddScaledVec :: "Vec3 \<Rightarrow> float32 \<Rightarrow> Vec3 \<Rightarrow> Vec3" where
  "Vec3_AddScaledVec v f a = Vec3_Add v (Vec3_Mul a f)"

section \<open>Quaternions\<close>

record Quaternion =
  W :: float32
  V :: Vec3

definition QuatIdent :: Quaternion where
  "QuatIdent = \<lparr>W = 1, V = Vec3 0 0 0\<rparr>"

definition QuatRotate :: "float32 \<Rightarrow> Vec3 \<Rightarrow> Quaternion" where
  "QuatRotate angle axis =
     (let s = Sin (angle * 0.5); c = Cos (angle * 0.5)
      in \<lparr>W = c, V = Vec3_Mul axis s\<rparr>)"

definition Iden :: "Quaternion \<Rightarrow> Quaternion" where
  "Iden q1 = q1\<lparr>W := 1, V := Vec3 0 0 0\<rparr>"

definition Quaternion_Mul :: "Quaternion \<Rightarrow> Quaternion \<Rightarrow> Quaternion" where
  "Quaternion_Mul q1 q2 =
     (let c = Vec3_CrossOf (V q1) (V q2);
          m1 = Vec3_MulOf (W q1) (V q2);
          m2 = Vec3_MulOf (W q2) (V q1);
          a1 = Vec3_AddOf c m1
      in \<lparr>W = W q1 * W q2 - Vec3_Dot (V q1) (V q2), V = Vec3_Add a1 m2\<rparr>)"

definition Quaternion_MulWith :: "Quaternion \<Rightarrow> Quaternion \<Rightarrow> Quaternion" where
  "Quaternion_MulWith q1 q2 =
     (let w = W q1;
          v = V q1;
          q1 = q1\<lparr>W := w * W q2 - Vec3_Dot v (V q2)\<rparr>;
          q1 = q1\<lparr>V := Vec3_CrossOf v (V q2)\<rparr>;
          q1 = q1\<lparr>V := Vec3_AddScaledVec (V q1) w (V q2)\<rparr>;
          q1 = q1\<lparr>V := Vec3_AddScaledVec (V q1) (W q2) v\<rparr>
      in q1)"

section \<open>4x4 matrices\<close>

text \<open>\<open>type Mat4 [16]float32\<close>, column major: element (row, col) is at index \<open>col*4 + row\<close>.\<close>

datatype Mat4 = Mat4 float32 float32 float32 float32 float32 float32 float32 float32
                     float32 float32 float32 float32 float32 float32 float32 float32

definition Ident4 :: Mat4 where
  "Ident4 = Mat4 1 0 0 0 0 1 0 0 0 0 1 0 0 0 0 1"

fun Mat4_Mul4 :: "Mat4 \<Rightarrow> Mat4 \<Rightarrow> Mat4" where
  "Mat4_Mul4 (Mat4 a0 a1 a2 a3 a4 a5 a6 a7 a8 a9 a10 a11 a12 a13 a14 a15)
             (Mat4 b0 b1 b2 b3 b4 b5 b6 b7 b8 b9 b10 b11 b12 b13 b14 b15) =
     Mat4
       (a0*b0 + a4*b1 + a8*b2 + a12*b3)
       (a1*b0 + a5*b1 + a9*b2 + a13*b3)
       (a2*b0 + a6*b1 + a10*b2 + a14*b3)
       (a3*b0 + a7*b1 + a11*b2 + a15*b3)
       (a0*b4 + a4*b5 + a8*b6 + a12*b7)
       (a1*b4 + a5*b5 + a9*b6 + a13*b7)
       (a2*b4 + a6*b5 + a10*b6 + a14*b7)
       (a3*b4 + a7*b5 + a11*b6 + a15*b7)
       (a0*b8 + a4*b9 + a8*b10 + a12*b11)
       (a1*b8 + a5*b9 + a9*b10 + a13*b11)
       (a2*b8 + a6*b9 + a10*b10 + a14*b11)
       (a3*b8 + a7*b9 + a11*b10 + a15*b11)
       (a0*b12 + a4*b13 + a8*b14 + a12*b15)
       (a1*b12 + a5*b13 + a9*b14 + a13*b15)
       (a2*b12 + a6*b13 + a10*b14 + a14*b15)
       (a3*b12 + a7*b13 + a11*b14 + a15*b15)"

text \<open>\<open>Quaternion.Mat4\<close>: the homogeneous rotation matrix of a quaternion.\<close>

definition Quaternion_Mat4 :: "Quaternion \<Rightarrow> Mat4" where
  "Quaternion_Mat4 q1 =
     (case V q1 of Vec3 x y z \<Rightarrow>
        let w = W q1 in
        Mat4
          (1 - 2*y*y - 2*z*z) (2*x*y + 2*w*z) (2*x*z - 2*w*y) 0
          (2*x*y - 2*w*z) (1 - 2*x*x - 2*z*z) (2*y*z + 2*w*x) 0
          (2*x*z + 2*w*y) (2*y*z - 2*w*x) (1 - 2*x*x - 2*y*y) 0
          0 0 0 1)"

section \<open>The transform composer\<close>

text \<open>\<open>math.Transform\<close> is a 4x4 matrix; \<open>Node.GetTransform\<close> casts it to \<open>Mat4\<close>.\<close>

type_synonym Transform = Mat4

text \<open>
  Modelled from the spec: the methods \<open>SetTranslateVec3\<close>, \<open>RotateQuat\<close> and \<open>ScaleVec3\<close>
  of \<open>Transform\<close> are not among the sources at hand. The specification (4.2): "the
  matrix is built by starting from identity, setting the translation column from
  position, then multiplying in the rotation derived from the quaternion, then
  multiplying in the scale". Each takes the receiver's old value and returns its new one.
\<close>

definition SetTranslateVec3 :: "Transform \<Rightarrow> Vec3 \<Rightarrow> Transform" where
  "SetTranslateVec3 t v =
     (case v of Vec3 x y z \<Rightarrow> Mat4 1 0 0 0 0 1 0 0 0 0 1 0 x y z 1)"

definition RotateQuat :: "Transform \<Rightarrow> Quaternion \<Rightarrow> Transform" where
  "RotateQuat t q = Mat4_Mul4 t (Quaternion_Mat4 q)"

definition ScaleVec3 :: "Transform \<Rightarrow> Vec3 \<Rightarrow> Transform" where
  "ScaleVec3 t s =
     (case s of Vec3 sx sy sz \<Rightarrow> Mat4_Mul4 t (Mat4 sx 0 0 0 0 sy 0 0 0 0 sz 0 0 0 0 1))"

section \<open>Nodes\<close>

text \<open>
  \<open>type Node struct\<close>. The \<open>parent\<close> and \<open>children\<close> fields hold references to other
  scene-graph objects (\<open>Grapher\<close> values); they are kept as object identifiers and no
  function below touches them.
\<close>

record Node =
  parent :: "nat option"
  children :: "nat list"
  position :: Vec3
  rotation :: Quaternion
  scale :: Vec3
  transformValid :: bool
  transform :: Transform

text \<open>\<open>new(Node)\<close>: every field has its zero value.\<close>

definition zero_Node :: Node where
  "zero_Node = \<lparr>parent = None, children = [],
     position = Vec3 0 0 0, rotation = \<lparr>W = 0, V = Vec3 0 0 0\<rparr>, scale = Vec3 0 0 0,
     transformValid = False,
     transform = Mat4 0 0 0 0 0 0 0 0 0 0 0 0 0 0 0 0\<rparr>"

definition Init :: "Node \<Rightarrow> Node" where
  "Init n = (let n = n\<lparr>rotation := Iden (rotation n)\<rparr> in n\<lparr>scale := Vec3 1 1 1\<rparr>)"

definition NewNode :: Node where
  "NewNode = Init zero_Node"

definition SetPosition :: "Node \<Rightarrow> float32 \<Rightarrow> float32 \<Rightarrow> float32 \<Rightarrow> Node" where
  "SetPosition n x y z = n\<lparr>position := Vec3 x y z, transformValid := False\<rparr>"

definition SetPositionV :: "Node \<Rightarrow> Vec3 \<Rightarrow> Node" where
  "SetPositionV n p = n\<lparr>position := p, transformValid := False\<rparr>"

definition TranslateX :: "Node \<Rightarrow> float32 \<Rightarrow> Node" where
  "TranslateX n tx =
     (case position n of Vec3 p0 p1 p2 \<Rightarrow>
        n\<lparr>position := Vec3 (p0 + tx) p1 p2, transformValid := False\<rparr>)"

definition TranslateY :: "Node \<Rightarrow> float32 \<Rightarrow> Node" where
  "TranslateY n ty =
     (case position n of Vec3 p0 p1 p2 \<Rightarrow>
        n\<lparr>position := Vec3 p0 (p1 + ty) p2, transformValid := False\<rparr>)"

definition TranslateZ :: "Node \<Rightarrow> float32 \<Rightarrow> Node" where
  "TranslateZ n tz =
     (case position n of Vec3 p0 p1 p2 \<Rightarrow>
        n\<lparr>position := Vec3 p0 p1 (p2 + tz), transformValid := False\<rparr>)"

definition SetRotation :: "Node \<Rightarrow> Quaternion \<Rightarrow> Node" where
  "SetRotation n q = n\<lparr>rotation := q, transformValid := False\<rparr>"

definition RotateAroundAxis :: "Node \<Rightarrow> Vec3 \<Rightarrow> float32 \<Rightarrow> Node" where
  "RotateAroundAxis n axis angle =
     (let q = QuatRotate angle axis
      in n\<lparr>rotation := Quaternion_MulWith (rotation n) q, transformValid := False\<rparr>)"

definition RotateX :: "Node \<Rightarrow> float32 \<Rightarrow> Node" where
  "RotateX n angle = (RotateAroundAxis n (Vec3 1 0 0) angle)\<lparr>transformValid := False\<rparr>"

definition RotateY :: "Node \<Rightarrow> float32 \<Rightarrow> Node" where
  "RotateY n angle = (RotateAroundAxis n (Vec3 0 1 0) angle)\<lparr>transformValid := False\<rparr>"

definition RotateZ :: "Node \<Rightarrow> float32 \<Rightarrow> Node" where
  "RotateZ n angle = (RotateAroundAxis n (Vec3 0 0 1) angle)\<lparr>transformValid := False\<rparr>"

definition SetScale :: "Node \<Rightarrow> float32 \<Rightarrow> float32 \<Rightarrow> float32 \<Rightarrow> Node" where
  "SetScale n sx sy sz = n\<lparr>scale := Vec3 sx sy sz, transformValid := False\<rparr>"

definition SetScaleV :: "Node \<Rightarrow> Vec3 \<Rightarrow> Node" where
  "SetScaleV n s = n\<lparr>scale := s, transformValid := False\<rparr>"

definition ScaleX :: "Node \<Rightarrow> float32 \<Rightarrow> Node" where
  "ScaleX n sx =
     (case scale n of Vec3 s0 s1 s2 \<Rightarrow>
        n\<lparr>scale := Vec3 (s0 * sx) s1 s2, transformValid := False\<rparr>)"

definition ScaleY :: "Node \<Rightarrow> float32 \<Rightarrow> Node" where
  "ScaleY n sy =
     (case scale n of Vec3 s0 s1 s2 \<Rightarrow>
        n\<lparr>scale := Vec3 s0 (s1 * sy) s2, transformValid := False\<rparr>)"

definition ScaleZ :: "Node \<Rightarrow> float32 \<Rightarrow> Node" where
  "ScaleZ n sz =
     (case scale n of Vec3 s0 s1 s2 \<Rightarrow>
        n\<lparr>scale := Vec3 s0 s1 (s2 * sz), transformValid := False\<rparr>)"

text \<open>
  \<open>getTransform\<close> returns a pointer to the node's \<open>transform\<close> field and may update the
  node: the model returns the matrix the pointer designates at the return, and the node.
\<close>

definition getTransform :: "Node \<Rightarrow> Transform \<times> Node" where
  "getTransform n =
     (if transformValid n then (transform n, n)
      else
        let n = n\<lparr>transform := SetTranslateVec3 (transform n) (position n)\<rparr>;
            n = n\<lparr>transform := RotateQuat (transform n) (rotation n)\<rparr>;
            n = n\<lparr>transform := ScaleVec3 (transform n) (scale n)\<rparr>;
            n = n\<lparr>transformValid := True\<rparr>
        in (transform n, n))"

definition GetTransform :: "Node \<Rightarrow> Mat4 \<times> Node" where
  "GetTransform n = getTransform n"

section \<open>Approximate comparison\<close>

text \<open>
  \<open>FloatEqual\<close> (the package's comparison of two floats up to its epsilon) is in the
  utility file, which is not among the sources at hand. Every function that calls it
  takes it as its first parameter, named \<open>FloatEqual\<close>. The test \<open>FloatEqual(det, 0)\<close> of
  the inverses is what the specification calls "the determinant is numerically zero".
\<close>

section \<open>2x2 matrices\<close>

text \<open>\<open>type Mat2 [4]float32\<close>, column major.\<close>

datatype Mat2 = Mat2 float32 float32 float32 float32

definition Ident2 :: Mat2 where
  "Ident2 = Mat2 1 0 0 1"

fun Mat2_Mul2 :: "Mat2 \<Rightarrow> Mat2 \<Rightarrow> Mat2" where
  "Mat2_Mul2 (Mat2 m0 m1 m2 m3) (Mat2 n0 n1 n2 n3) =
     Mat2 (m0*n0 + m2*n1) (m1*n0 + m3*n1) (m0*n2 + m2*n3) (m1*n2 + m3*n3)"

fun Mat2_Det :: "Mat2 \<Rightarrow> float32" where
  "Mat2_Det (Mat2 m0 m1 m2 m3) = m0*m3 - m1*m2"

fun Mat2_Inverse :: "(float32 \<Rightarrow> float32 \<Rightarrow> bool) \<Rightarrow> Mat2 \<Rightarrow> Mat2" where
  "Mat2_Inverse FloatEqual (Mat2 m0 m1 m2 m3) =
     (let det = Mat2_Det (Mat2 m0 m1 m2 m3) in
      if FloatEqual det 0 then Mat2 0 0 0 0
      else
        let over = 1 / det in
        Mat2 (m3 * over) (- m1 * over) (- m2 * over) (m0 * over))"

section \<open>3x3 matrices\<close>

text \<open>\<open>type Mat3 [9]float32\<close>, column major.\<close>

datatype Mat3 = Mat3 float32 float32 float32 float32 float32 float32 float32 float32 float32

definition Ident3 :: Mat3 where
  "Ident3 = Mat3 1 0 0 0 1 0 0 0 1"

fun Mat3_Mul :: "Mat3 \<Rightarrow> float32 \<Rightarrow> Mat3" where
  "Mat3_Mul (Mat3 m0 m1 m2 m3 m4 m5 m6 m7 m8) c =
     Mat3 (m0 * c) (m1 * c) (m2 * c) (m3 * c) (m4 * c) (m5 * c) (m6 * c) (m7 * c) (m8 * c)"

fun Mat3_Mul3 :: "Mat3 \<Rightarrow> Mat3 \<Rightarrow> Mat3" where
  "Mat3_Mul3 (Mat3 m0 m1 m2 m3 m4 m5 m6 m7 m8) (Mat3 n0 n1 n2 n3 n4 n5 n6 n7 n8) =
     Mat3
       (m0*n0 + m3*n1 + m6*n2)
       (m1*n0 + m4*n1 + m7*n2)
       (m2*n0 + m5*n1 + m8*n2)
       (m0*n3 + m3*n4 + m6*n5)
       (m1*n3 + m4*n4 + m7*n5)
       (m2*n3 + m5*n4 + m8*n5)
       (m0*n6 + m3*n7 + m6*n8)
       (m1*n6 + m4*n7 + m7*n8)
       (m2*n6 + m5*n7 + m8*n8)"

fun Mat3_Det :: "Mat3 \<Rightarrow> float32" where
  "Mat3_Det (Mat3 m0 m1 m2 m3 m4 m5 m6 m7 m8) =
     m0*m4*m8 + m3*m7*m2 + m6*m1*m5 -
       m6*m4*m2 - m3*m1*m8 - m0*m7*m5"

text \<open>The matrix \<open>retMat\<close> that \<open>Mat3.Inverse\<close> builds before it scales it by \<open>1 / det\<close>.\<close>

fun Mat3_Inverse_retMat :: "Mat3 \<Rightarrow> Mat3" where
  "Mat3_Inverse_retMat (Mat3 m0 m1 m2 m3 m4 m5 m6 m7 m8) =
     Mat3
       (m4*m8 - m5*m7)
       (m2*m7 - m1*m8)
       (m1*m5 - m2*m4)
       (m5*m6 - m3*m8)
       (m0*m8 - m2*m6)
       (m2*m3 - m0*m5)
       (m3*m7 - m4*m6)
       (m1*m6 - m0*m7)
       (m0*m4 - m1*m3)"

definition Mat3_Inverse :: "(float32 \<Rightarrow> float32 \<Rightarrow> bool) \<Rightarrow> Mat3 \<Rightarrow> Mat3" where
  "Mat3_Inverse FloatEqual m1 =
     (let det = Mat3_Det m1 in
      if FloatEqual det 0 then Mat3 0 0 0 0 0 0 0 0 0
      else
        let retMat = Mat3_Inverse_retMat m1
        in Mat3_Mul retMat (1 / det))"

section \<open>4x4 matrices: scalar product, determinant, inverse\<close>

fun Mat4_Mul :: "Mat4 \<Rightarrow> float32 \<Rightarrow> Mat4" where
  "Mat4_Mul (Mat4 m0 m1 m2 m3 m4 m5 m6 m7 m8 m9 m10 m11 m12 m13 m14 m15) c =
     Mat4 (m0 * c) (m1 * c) (m2 * c) (m3 * c) (m4 * c) (m5 * c) (m6 * c) (m7 * c)
          (m8 * c) (m9 * c) (m10 * c) (m11 * c) (m12 * c) (m13 * c) (m14 * c) (m15 * c)"

fun Mat4_Det :: "Mat4 \<Rightarrow> float32" where
  "Mat4_Det (Mat4 m0 m1 m2 m3 m4 m5 m6 m7 m8 m9 m10 m11 m12 m13 m14 m15) =
     m0*m5*m10*m15 - m0*m5*m11*m14 - m0*m6*m9*m15 + m0*m6*m11*m13 + m0*m7*m9*m14
       - m0*m7*m10*m13 - m1*m4*m10*m15 + m1*m4*m11*m14 + m1*m6*m8*m15 - m1*m6*m11*m12
       - m1*m7*m8*m14 + m1*m7*m10*m12 + m2*m4*m9*m15 - m2*m4*m11*m13 - m2*m5*m8*m15
       + m2*m5*m11*m12 + m2*m7*m8*m13 - m2*m7*m9*m12 - m3*m4*m9*m14 + m3*m4*m10*m13
       + m3*m5*m8*m14 - m3*m5*m10*m12 - m3*m6*m8*m13 + m3*m6*m9*m12"

text \<open>
  The matrix \<open>retMat\<close> that \<open>Mat4.Inverse\<close> builds, from its precalculated products, before
  it scales it by \<open>1 / det\<close>.
\<close>

definition Mat4_Inverse_retMat :: "Mat4 \<Rightarrow> Mat4" where
  "Mat4_Inverse_retMat m1 =
     (case m1 of Mat4 v0 v1 v2 v3 v4 v5 v6 v7 v8 v9 v10 v11 v12 v13 v14 v15 \<Rightarrow>
      let
        v7v10 = v7 * v10;
        v6v11 = v6 * v11;
        v7v9 = v7 * v9;
        v5v11 = v5 * v11;
        v6v9 = v6 * v9;
        v5v10 = v5 * v10;
        v1v4 = v1 * v4;
        v4v9 = v4 * v9;
        v6v8 = v6 * v8;
        v5v8 = v5 * v8;
        v7v8 = v7 * v8;
        v1v12 = v1 * v12;
        v2v12 = v2 * v12;
        v2v13 = v2 * v13;
        v2v15 = v2 * v15;
        v3v12 = v3 * v12;
        v3v13 = v3 * v13;
        v3v14 = v3 * v14;
        v4v10 = v4 * v10;
        v4v11 = v4 * v11;
        v10v15 = v10 * v15;
        v7v14 = v7 * v14;
        v6v15 = v6 * v15;
        v0v11 = v0 * v11;
        v1v8 = v1 * v8;
        v0v9 = v0 * v9;
        v0v5 = v0 * v5;
        v0v13 = v0 * v13
      in Mat4
        (-v7v10*v13 + v6v11*v13 + v7v9*v14 - v5v11*v14 - v6v9*v15 + v5v10*v15)
        (v3v13*v10 - v2v13*v11 - v3v14*v9 + v1*v11*v14 + v2v15*v9 - v1*v10v15)
        (-v3v13*v6 + v2v13*v7 + v3v14*v5 - v1*v7v14 - v2v15*v5 + v1*v6v15)
        (v3*v6v9 - v2*v7v9 - v3*v5v10 + v1*v7v10 + v2*v5v11 - v1*v6v11)
        (v7v10*v12 - v6v11*v12 - v7v8*v14 + v4v11*v14 + v6v8*v15 - v4v10*v15)
        (-v3v12*v10 + v2v12*v11 + v3v14*v8 - v0v11*v14 - v2v15*v8 + v0*v10v15)
        (v3v12*v6 - v2v12*v7 - v3v14*v4 + v0*v7v14 + v2v15*v4 - v0*v6v15)
        (-v3*v6v8 + v2*v7v8 + v3*v4v10 - v0*v7v10 - v2*v4v11 + v0*v6v11)
        (-v7v9*v12 + v5v11*v12 + v7v8*v13 - v4v11*v13 - v5v8*v15 + v4v9*v15)
        (v3v12*v9 - v1v12*v11 - v3v13*v8 + v0v11*v13 + v1v8*v15 - v0v9*v15)
        (-v3v12*v5 + v1v12*v7 + v3v13*v4 - v0v13*v7 - v1v4*v15 + v0v5*v15)
        (v3*v5v8 - v1*v7v8 - v3*v4v9 + v0*v7v9 + v1v4*v11 - v0*v5v11)
        (v6v9*v12 - v5v10*v12 - v6v8*v13 + v4v10*v13 + v5v8*v14 - v4v9*v14)
        (-v2v12*v9 + v1v12*v10 + v2v13*v8 - v0v13*v10 - v1v8*v14 + v0v9*v14)
        (v2v12*v5 - v1v12*v6 - v2v13*v4 + v0v13*v6 + v1v4*v14 - v0v5*v14)
        (-v2*v5v8 + v1*v6v8 + v2*v4v9 - v0*v6v9 - v1v4*v10 + v0*v5v10))"

definition Mat4_Inverse :: "(float32 \<Rightarrow> float32 \<Rightarrow> bool) \<Rightarrow> Mat4 \<Rightarrow> Mat4" where
  "Mat4_Inverse FloatEqual m1 =
     (let det = Mat4_Det m1 in
      if FloatEqual det 0 then Mat4 0 0 0 0 0 0 0 0 0 0 0 0 0 0 0 0
      else
        let retMat = Mat4_Inverse_retMat m1
        in Mat4_Mul retMat (1.0 / det))"

section \<open>2x3 matrices\<close>

text \<open>
  \<open>type Mat2x3 [6]float32\<close>: 2 rows, 3 columns, column major; the affine transform whose
  last row \<open>[0 0 1]\<close> is not stored.
\<close>

datatype Mat2x3 = Mat2x3 float32 float32 float32 float32 float32 float32

fun Mat2x3_Mat3 :: "Mat2x3 \<Rightarrow> Mat3" where
  "Mat2x3_Mat3 (Mat2x3 m0 m1 m2 m3 m4 m5) = Mat3 m0 m1 0 m2 m3 0 m4 m5 1"

fun Mat2x3_Mul :: "Mat2x3 \<Rightarrow> float32 \<Rightarrow> Mat2x3" where
  "Mat2x3_Mul (Mat2x3 m0 m1 m2 m3 m4 m5) c =
     Mat2x3 (m0 * c) (m1 * c) (m2 * c) (m3 * c) (m4 * c) (m5 * c)"

fun Mat2x3_Mul2x3 :: "Mat2x3 \<Rightarrow> Mat2x3 \<Rightarrow> Mat2x3" where
  "Mat2x3_Mul2x3 (Mat2x3 m0 m1 m2 m3 m4 m5) (Mat2x3 n0 n1 n2 n3 n4 n5) =
     Mat2x3
       (m0*n0 + m2*n1)
       (m1*n0 + m3*n1)
       (m0*n2 + m2*n3)
       (m1*n2 + m3*n3)
       (m0*n4 + m2*n5 + m4)
       (m1*n4 + m3*n5 + m5)"

fun Mat2x3_Det :: "Mat2x3 \<Rightarrow> float32" where
  "Mat2x3_Det (Mat2x3 m0 m1 m2 m3 m4 m5) = m0*m3 - m2*m1"

fun Mat2x3_Inverse :: "(float32 \<Rightarrow> float32 \<Rightarrow> bool) \<Rightarrow> Mat2x3 \<Rightarrow> Mat2x3" where
  "Mat2x3_Inverse FloatEqual (Mat2x3 m0 m1 m2 m3 m4 m5) =
     (let det = Mat2x3_Det (Mat2x3 m0 m1 m2 m3 m4 m5) in
      if FloatEqual det 0 then Mat2x3 0 0 0 0 0 0
      else
        let retMat = Mat2x3
              m3
              (- m1)
              (- m1)
              m0
              (m1*m5 - m3*m4)
              (m1*m4 - m0*m5)
        in Mat2x3_Mul retMat (1 / det))"

section \<open>Quaternions: norm, rotation of a vector, interpolation\<close>

definition Quaternion_Add :: "Quaternion \<Rightarrow> Quaternion \<Rightarrow> Quaternion" where
  "Quaternion_Add q1 q2 = \<lparr>W = W q1 + W q2, V = Vec3_Add (V q1) (V q2)\<rparr>"

definition Quaternion_Sub :: "Quaternion \<Rightarrow> Quaternion \<Rightarrow> Quaternion" where
  "Quaternion_Sub q1 q2 = \<lparr>W = W q1 - W q2, V = Vec3_Sub (V q1) (V q2)\<rparr>"

definition Quaternion_Scale :: "Quaternion \<Rightarrow> float32 \<Rightarrow> Quaternion" where
  "Quaternion_Scale q1 c =
     (case V q1 of Vec3 x y z \<Rightarrow> \<lparr>W = W q1 * c, V = Vec3 (x * c) (y * c) (z * c)\<rparr>)"


definition Quaternion_Len :: "Quaternion \<Rightarrow> float32" where
  "Quaternion_Len q1 =
     (case V q1 of Vec3 x y z \<Rightarrow> Sqrt (W q1 * W q1 + x * x + y * y + z * z))"

definition Norm :: "Quaternion \<Rightarrow> float32" where
  "Norm q1 = Quaternion_Len q1"

text \<open>
  \<open>Normalized\<close>. The source's third test, \<open>length == InfPos\<close> (then \<open>length = MaxValue\<close>),
  is never true of a real number and has no counterpart here.
\<close>

definition Normalized :: "(float32 \<Rightarrow> float32 \<Rightarrow> bool) \<Rightarrow> Quaternion \<Rightarrow> Quaternion" where
  "Normalized FloatEqual q1 =
     (let length = Quaternion_Len q1 in
      if FloatEqual 1 length then q1
      else if FloatEqual length 0 then QuatIdent
      else
        let il = 1.0 / length in
        \<lparr>W = W q1 * il, V = Vec3_Mul (V q1) il\<rparr>)"

definition Quaternion_Dot :: "Quaternion \<Rightarrow> Quaternion \<Rightarrow> float32" where
  "Quaternion_Dot q1 q2 =
     (case (V q1, V q2) of (Vec3 x1 y1 z1, Vec3 x2 y2 z2) \<Rightarrow>
        W q1 * W q2 + x1 * x2 + y1 * y2 + z1 * z2)"


definition QuatLerp :: "Quaternion \<Rightarrow> Quaternion \<Rightarrow> float32 \<Rightarrow> Quaternion" where
  "QuatLerp q1 q2 amount =
     (let var1 = Quaternion_Sub q2 q1;
          var2 = Quaternion_Scale var1 amount
      in Quaternion_Add q1 var2)"

definition QuatNlerp ::
  "(float32 \<Rightarrow> float32 \<Rightarrow> bool) \<Rightarrow> Quaternion \<Rightarrow> Quaternion \<Rightarrow> float32 \<Rightarrow> Quaternion" where
  "QuatNlerp FloatEqual q1 q2 amount =
     (let l = QuatLerp q1 q2 amount in Normalized FloatEqual l)"

definition QuatSlerp ::
  "(float32 \<Rightarrow> float32 \<Rightarrow> bool) \<Rightarrow> Quaternion \<Rightarrow> Quaternion \<Rightarrow> float32 \<Rightarrow> Quaternion" where
  "QuatSlerp FloatEqual q1 q2 amount =
     (let epsilon = 0.9995;
          n1 = Normalized FloatEqual q1;
          n2 = Normalized FloatEqual q2;
          dot = Quaternion_Dot n1 n2
      in
        if dot > epsilon then QuatNlerp FloatEqual n1 n2 amount
        else
          let dot = Clamp dot (- 1) 1;
              theta = Acos dot * amount;
              c = Cos theta;
              s = Sin theta;
              n1dot = Quaternion_Scale n1 dot;
              n2n1dot = Quaternion_Sub n2 n1dot;
              rel = Normalized FloatEqual n2n1dot;
              rel = Quaternion_Scale rel s;
              n1c = Quaternion_Scale n1 c
          in Quaternion_Add n1c rel)"


section \<open>Euler angles\<close>

text \<open>\<open>type RotationOrder int\<close>, with the twelve constants numbered by \<open>iota\<close> from 0.\<close>

type_synonym RotationOrder = int

definition XYX :: RotationOrder where
  "XYX = 0"

definition XYZ :: RotationOrder where
  "XYZ = 1"

definition XZX :: RotationOrder where
  "XZX = 2"

definition XZY :: RotationOrder where
  "XZY = 3"

definition YXY :: RotationOrder where
  "YXY = 4"

definition YXZ :: RotationOrder where
  "YXZ = 5"

definition YZY :: RotationOrder where
  "YZY = 6"

definition YZX :: RotationOrder where
  "YZX = 7"

definition ZYZ :: RotationOrder where
  "ZYZ = 8"

definition ZYX :: RotationOrder where
  "ZYX = 9"

definition ZXZ :: RotationOrder where
  "ZXZ = 10"

definition ZXY :: RotationOrder where
  "ZXY = 11"

text \<open>A panic ends the program with its message; it is the error value of the model.\<close>

datatype error = Panic string

text \<open>
  \<open>AnglesToQuat\<close>: the \<open>switch\<close> is the chain of tests below, in the source's order of
  cases; its \<open>default\<close> branch panics.
\<close>

definition AnglesToQuat ::
  "float32 \<Rightarrow> float32 \<Rightarrow> float32 \<Rightarrow> RotationOrder \<Rightarrow> error + Quaternion" where
  "AnglesToQuat angle1 angle2 angle3 order =
     (let (s0, c0) = Sincos (angle1 / 2);
          (s1, c1) = Sincos (angle2 / 2);
          (s2, c2) = Sincos (angle3 / 2)
      in
        if order = ZYX then
          Inr \<lparr>W = c0*c1*c2 + s0*s1*s2,
               V = Vec3 (c0*c1*s2 - s0*s1*c2)
                        (c0*s1*c2 + s0*c1*s2)
                        (s0*c1*c2 - c0*s1*s2)\<rparr>
        else if order = ZYZ then
          Inr \<lparr>W = c0*c1*c2 - s0*c1*s2,
               V = Vec3 (c0*s1*s2 - s0*s1*c2)
                        (c0*s1*c2 + s0*s1*s2)
                        (s0*c1*c2 + c0*c1*s2)\<rparr>
        else if order = ZXY then
          Inr \<lparr>W = c0*c1*c2 - s0*s1*s2,
               V = Vec3 (c0*s1*c2 - s0*c1*s2)
                        (c0*c1*s2 + s0*s1*c2)
                        (c0*s1*s2 + s0*c1*c2)\<rparr>
        else if order = ZXZ then
          Inr \<lparr>W = c0*c1*c2 - s0*c1*s2,
               V = Vec3 (c0*s1*c2 + s0*s1*s2)
                        (s0*s1*c2 - c0*s1*s2)
                        (c0*c1*s2 + s0*c1*c2)\<rparr>
        else if order = YXZ then
          Inr \<lparr>W = c0*c1*c2 + s0*s1*s2,
               V = Vec3 (c0*s1*c2 + s0*c1*s2)
                        (s0*c1*c2 - c0*s1*s2)
                        (c0*c1*s2 - s0*s1*c2)\<rparr>
        else if order = YXY then
          Inr \<lparr>W = c0*c1*c2 - s0*c1*s2,
               V = Vec3 (c0*s1*c2 + s0*s1*s2)
                        (s0*c1*c2 + c0*c1*s2)
                        (c0*s1*s2 - s0*s1*c2)\<rparr>
        else if order = YZX then
          Inr \<lparr>W = c0*c1*c2 - s0*s1*s2,
               V = Vec3 (c0*c1*s2 + s0*s1*c2)
                        (c0*s1*s2 + s0*c1*c2)
                        (c0*s1*c2 - s0*c1*s2)\<rparr>
        else if order = YZY then
          Inr \<lparr>W = c0*c1*c2 - s0*c1*s2,
               V = Vec3 (s0*s1*c2 - c0*s1*s2)
                        (c0*c1*s2 + s0*c1*c2)
                        (c0*s1*c2 + s0*s1*s2)\<rparr>
        else if order = XYZ then
          Inr \<lparr>W = c0*c1*c2 - s0*s1*s2,
               V = Vec3 (c0*s1*s2 + s0*c1*c2)
                        (c0*s1*c2 - s0*c1*s2)
                        (c0*c1*s2 + s0*s1*c2)\<rparr>
        else if order = XYX then
          Inr \<lparr>W = c0*c1*c2 - s0*c1*s2,
               V = Vec3 (c0*c1*s2 + s0*c1*c2)
                        (c0*s1*c2 + s0*s1*s2)
                        (s0*s1*c2 - c0*s1*s2)\<rparr>
        else if order = XZY then
          Inr \<lparr>W = c0*c1*c2 + s0*s1*s2,
               V = Vec3 (s0*c1*c2 - c0*s1*s2)
                        (c0*c1*s2 - s0*s1*c2)
                        (c0*s1*c2 + s0*c1*s2)\<rparr>
        else if order = XZX then
          Inr \<lparr>W = c0*c1*c2 - s0*c1*s2,
               V = Vec3 (c0*c1*s2 + s0*c1*c2)
                        (c0*s1*s2 - s0*s1*c2)
                        (c0*s1*c2 + s0*s1*s2)\<rparr>
        else Inl (Panic ''Unsupported rotation order''))"


section \<open>Pointers into a node\<close>

text \<open>
  \<open>GetPosition\<close>, \<open>GetRotation\<close> and \<open>GetScale\<close> return \<open>&n.position\<close>, \<open>&n.rotation\<close> and
  \<open>&n.scale\<close>: addresses of fields of the node itself. An address is modelled by the
  field it designates; reading and writing through it read and write that field of the
  node, and nothing else.
\<close>

datatype Vec3_ptr = Addr_position | Addr_scale

datatype Quaternion_ptr = Addr_rotation

definition GetPosition :: "Node \<Rightarrow> Vec3_ptr" where
  "GetPosition n = Addr_position"

definition GetRotation :: "Node \<Rightarrow> Quaternion_ptr" where
  "GetRotation n = Addr_rotation"

definition GetScale :: "Node \<Rightarrow> Vec3_ptr" where
  "GetScale n = Addr_scale"

fun load_Vec3 :: "Node \<Rightarrow> Vec3_ptr \<Rightarrow> Vec3" where
  "load_Vec3 n Addr_position = position n"
| "load_Vec3 n Addr_scale = scale n"

fun store_Vec3 :: "Node \<Rightarrow> Vec3_ptr \<Rightarrow> Vec3 \<Rightarrow> Node" where
  "store_Vec3 n Addr_position v = n\<lparr>position := v\<rparr>"
| "store_Vec3 n Addr_scale v = n\<lparr>scale := v\<rparr>"

fun load_Quaternion :: "Node \<Rightarrow> Quaternion_ptr \<Rightarrow> Quaternion" where
  "load_Quaternion n Addr_rotation = rotation n"

fun store_Quaternion :: "Node \<Rightarrow> Quaternion_ptr \<Rightarrow> Quaternion \<Rightarrow> Node" where
  "store_Quaternion n Addr_rotation q = n\<lparr>rotation := q\<rparr>"

section \<open>Sequences of calls\<close>

text \<open>The fifteen TRS mutators of a node, as values, and the effect of one call.\<close>

datatype Mutator =
    Call_SetPosition float32 float32 float32
  | Call_SetPositionV Vec3
  | Call_TranslateX float32
  | Call_TranslateY float32
  | Call_TranslateZ float32
  | Call_SetRotation Quaternion
  | Call_RotateAroundAxis Vec3 float32
  | Call_RotateX float32
  | Call_RotateY float32
  | Call_RotateZ float32
  | Call_SetScale float32 float32 float32
  | Call_SetScaleV Vec3
  | Call_ScaleX float32
  | Call_ScaleY float32
  | Call_ScaleZ float32

fun mutate :: "Node \<Rightarrow> Mutator \<Rightarrow> Node" where
  "mutate n (Call_SetPosition x y z) = SetPosition n x y z"
| "mutate n (Call_SetPositionV p) = SetPositionV n p"
| "mutate n (Call_TranslateX tx) = TranslateX n tx"
| "mutate n (Call_TranslateY ty) = TranslateY n ty"
| "mutate n (Call_TranslateZ tz) = TranslateZ n tz"
| "mutate n (Call_SetRotation q) = SetRotation n q"
| "mutate n (Call_RotateAroundAxis axis angle) = RotateAroundAxis n axis angle"
| "mutate n (Call_RotateX angle) = RotateX n angle"
| "mutate n (Call_RotateY angle) = RotateY n angle"
| "mutate n (Call_RotateZ angle) = RotateZ n angle"
| "mutate n (Call_SetScale sx sy sz) = SetScale n sx sy sz"
| "mutate n (Call_SetScaleV s) = SetScaleV n s"
| "mutate n (Call_ScaleX sx) = ScaleX n sx"
| "mutate n (Call_ScaleY sy) = ScaleY n sy"
| "mutate n (Call_ScaleZ sz) = ScaleZ n sz"

text \<open>A client's call is a mutator or a query of the transform.\<close>

datatype Call = Mutate Mutator | Query

fun call :: "Node \<Rightarrow> Call \<Rightarrow> Node" where
  "call n (Mutate m) = mutate n m"
| "call n Query = snd (getTransform n)"

section \<open>The composition of the specification\<close>

text \<open>
  The matrices \<open>T(position)\<close>, \<open>R(rotation)\<close>, \<open>S(scale)\<close> of the specification and their
  product \<open>T * R * S\<close>, computed without the node: \<open>T\<close> is the identity with the
  translation column set, \<open>R\<close> the rotation matrix of the quaternion, \<open>S\<close> the diagonal
  matrix of the scale factors.
\<close>

definition spec_T :: "Vec3 \<Rightarrow> Mat4" where
  "spec_T p = (case p of Vec3 x y z \<Rightarrow> Mat4 1 0 0 0 0 1 0 0 0 0 1 0 x y z 1)"

definition spec_R :: "Quaternion \<Rightarrow> Mat4" where
  "spec_R q = Quaternion_Mat4 q"

definition spec_S :: "Vec3 \<Rightarrow> Mat4" where
  "spec_S s = (case s of Vec3 sx sy sz \<Rightarrow> Mat4 sx 0 0 0 0 sy 0 0 0 0 sz 0 0 0 0 1)"

definition spec_TRS :: "Vec3 \<Rightarrow> Quaternion \<Rightarrow> Vec3 \<Rightarrow> Mat4" where
  "spec_TRS p q s = Mat4_Mul4 (Mat4_Mul4 (spec_T p) (spec_R q)) (spec_S s)"

text \<open>
  The invariant of the cache (specification, 3): when the flag is true, the cached matrix
  is the composition of the node's position, rotation and scale.
\<close>

definition cache_coherent :: "Node \<Rightarrow> bool" where
  "cache_coherent n =
     (if transformValid n then transform n = spec_TRS (position n) (rotation n) (scale n)
      else True)"

text \<open>The Hamilton product of the specification, written out on the four components.\<close>

definition hamilton :: "Quaternion \<Rightarrow> Quaternion \<Rightarrow> Quaternion" where
  "hamilton a b =
     (case (V a, V b) of (Vec3 ax ay az, Vec3 bx by bz) \<Rightarrow>
        \<lparr>W = W a * W b - ax * bx - ay * by - az * bz,
         V = Vec3 (W a * bx + ax * W b + ay * bz - az * by)
                  (W a * by - ax * bz + ay * W b + az * bx)
                  (W a * bz + ax * by - ay * bx + az * W b)\<rparr>)"


section \<open>Rounded arithmetic of \<open>float32\<close>\<close>










subsection \<open>2x2 matrices in \<open>float32\<close>\<close>





subsection \<open>Vectors and quaternions in \<open>float32\<close>\<close>












section \<open>Evaluation of the rounded arithmetic\<close>



section \<open>The transform cache of a node\<close>

lemma mutate_invalidates: "transformValid (mutate n m) = False"
  by (cases m)
     (simp_all add: SetPosition_def SetPositionV_def TranslateX_def TranslateY_def
        TranslateZ_def SetRotation_def RotateAroundAxis_def RotateX_def RotateY_def
        RotateZ_def SetScale_def SetScaleV_def ScaleX_def ScaleY_def ScaleZ_def Let_def
        split: Vec3.split)

lemma NewNode_dirty: "transformValid NewNode = False"
  by (simp add: NewNode_def Init_def zero_Node_def Let_def)

lemma getTransform_valid: "transformValid n \<Longrightarrow> getTransform n = (transform n, n)"
  by (simp add: getTransform_def)

lemma getTransform_invalid:
  "\<not> transformValid n \<Longrightarrow>
     getTransform n =
       (ScaleVec3 (RotateQuat (SetTranslateVec3 (transform n) (position n)) (rotation n)) (scale n),
        n\<lparr>transform :=
             ScaleVec3 (RotateQuat (SetTranslateVec3 (transform n) (position n)) (rotation n)) (scale n),
          transformValid := True\<rparr>)"
  by (simp add: getTransform_def Let_def)

lemma getTransform_sets_valid: "transformValid (snd (getTransform n))"
  by (simp add: getTransform_def Let_def)

lemma getTransform_fst: "fst (getTransform n) = transform (snd (getTransform n))"
  by (simp add: getTransform_def Let_def)

lemma getTransform_TRS_fields:
  "position (snd (getTransform n)) = position n"
  "rotation (snd (getTransform n)) = rotation n"
  "scale (snd (getTransform n)) = scale n"
  by (simp_all add: getTransform_def Let_def)

lemma NewNode_fields:
  "position NewNode = Vec3 0 0 0"
  "rotation NewNode = \<lparr>W = 1, V = Vec3 0 0 0\<rparr>"
  "scale NewNode = Vec3 1 1 1"
  "transform NewNode = Mat4 0 0 0 0 0 0 0 0 0 0 0 0 0 0 0 0"
  by (simp_all add: NewNode_def Init_def zero_Node_def Iden_def Let_def)

lemma getTransform_NewNode:
  "getTransform NewNode = (Ident4, NewNode\<lparr>transform := Ident4, transformValid := True\<rparr>)"
  by (simp add: getTransform_invalid NewNode_dirty NewNode_fields ScaleVec3_def RotateQuat_def
      SetTranslateVec3_def Quaternion_Mat4_def Ident4_def)

lemma getTransform_twice:
  "getTransform (snd (getTransform n)) = (fst (getTransform n), snd (getTransform n))"
  by (simp add: getTransform_valid getTransform_sets_valid getTransform_fst)

text \<open>
  C2. The cache of a node has two states, given by the flag \<open>transformValid\<close>: a node
  made by \<open>NewNode\<close> is dirty; each of the fifteen TRS mutators leaves the flag false;
  \<open>getTransform\<close> on a dirty node recomposes the matrix from position, rotation and
  scale, stores it and sets the flag; \<open>getTransform\<close> on a clean node returns the stored
  matrix and leaves the node as it is, without recomposing; so a second query, with no
  mutation in between, returns the matrix of the first and changes nothing.
\<close>

theorem cache_state_machine:
  "transformValid NewNode = False
   \<and> transformValid (mutate n m) = False
   \<and> (\<not> transformValid n \<longrightarrow>
        getTransform n =
          (ScaleVec3 (RotateQuat (SetTranslateVec3 (transform n) (position n)) (rotation n)) (scale n),
           n\<lparr>transform :=
                ScaleVec3 (RotateQuat (SetTranslateVec3 (transform n) (position n)) (rotation n)) (scale n),
             transformValid := True\<rparr>))
   \<and> (transformValid n \<longrightarrow> getTransform n = (transform n, n))
   \<and> transformValid (snd (getTransform n))
   \<and> getTransform (snd (getTransform n)) = (fst (getTransform n), snd (getTransform n))"
  by (intro conjI impI NewNode_dirty mutate_invalidates getTransform_valid getTransform_invalid
      getTransform_sets_valid getTransform_twice)

theorem cache_state_machine_witness:
  "\<not> transformValid NewNode
   \<and> getTransform NewNode = (Ident4, NewNode\<lparr>transform := Ident4, transformValid := True\<rparr>)
   \<and> transformValid (NewNode\<lparr>transform := Ident4, transformValid := True\<rparr>)
   \<and> getTransform (NewNode\<lparr>transform := Ident4, transformValid := True\<rparr>) =
        (Ident4, NewNode\<lparr>transform := Ident4, transformValid := True\<rparr>)
   \<and> \<not> transformValid (mutate (NewNode\<lparr>transform := Ident4, transformValid := True\<rparr>)
          (Call_TranslateX 1))"
proof -
  let ?c = "NewNode\<lparr>transform := Ident4, transformValid := True\<rparr>"
  note dirty = cache_state_machine [THEN conjunct1]
  note inval = cache_state_machine [THEN conjunct2, THEN conjunct1, of ?c "Call_TranslateX 1"]
  note miss = cache_state_machine [THEN conjunct2, THEN conjunct2, THEN conjunct1, of NewNode]
  note hit = cache_state_machine
    [THEN conjunct2, THEN conjunct2, THEN conjunct2, THEN conjunct1, of ?c]
  have 1: "\<not> transformValid NewNode"
    using dirty by simp
  have 2: "getTransform NewNode = (Ident4, ?c)"
    using miss [THEN mp, OF 1] by (simp only: getTransform_NewNode)
  have 3: "transformValid ?c"
    by simp
  have 4: "getTransform ?c = (Ident4, ?c)"
    using hit 3 by simp
  have 5: "\<not> transformValid (mutate ?c (Call_TranslateX 1))"
    using inval by simp
  from 1 2 3 4 5 show ?thesis
    by (intro conjI)
qed

section \<open>The local transform is T * R * S\<close>

lemma compose_eq:
  "ScaleVec3 (RotateQuat (SetTranslateVec3 t p) q) s = spec_TRS p q s"
  by (simp add: ScaleVec3_def RotateQuat_def SetTranslateVec3_def spec_TRS_def spec_T_def
      spec_R_def spec_S_def split: Vec3.split)

lemma cache_coherent_NewNode: "cache_coherent NewNode"
  by (simp add: cache_coherent_def NewNode_dirty)

lemma cache_coherent_mutate: "cache_coherent (mutate n m)"
  by (simp add: cache_coherent_def mutate_invalidates)

lemma getTransform_coherent:
  "cache_coherent n \<Longrightarrow> fst (getTransform n) = spec_TRS (position n) (rotation n) (scale n)"
  by (cases "transformValid n")
     (simp_all add: cache_coherent_def getTransform_valid getTransform_invalid compose_eq)

lemma cache_coherent_query: "cache_coherent n \<Longrightarrow> cache_coherent (snd (getTransform n))"
  using getTransform_coherent [of n]
  by (simp add: cache_coherent_def getTransform_fst getTransform_TRS_fields)

lemma cache_coherent_call: "cache_coherent n \<Longrightarrow> cache_coherent (call n c)"
  by (cases c) (simp_all add: cache_coherent_mutate cache_coherent_query)

lemma cache_coherent_calls: "cache_coherent n \<Longrightarrow> cache_coherent (foldl call n cs)"
  by (induction cs arbitrary: n) (simp_all add: cache_coherent_call)

text \<open>
  C1. Take a node whose cache is coherent: a node made by \<open>NewNode\<close> is
  (\<open>cache_coherent_NewNode\<close>), and so is any node whatever after one mutator call
  (\<open>cache_coherent_mutate\<close>). After every sequence of calls, each a TRS mutator or a
  query of the transform, \<open>getTransform\<close> returns the product \<open>T(position) * R(rotation) *
  S(scale)\<close> of the node's position, rotation and scale at that moment, in that order.
\<close>

theorem getTransform_is_TRS:
  "cache_coherent n \<Longrightarrow>
     fst (getTransform (foldl call n cs)) =
       spec_TRS (position (foldl call n cs)) (rotation (foldl call n cs)) (scale (foldl call n cs))"
  by (rule getTransform_coherent) (rule cache_coherent_calls)

lemma NewNode_eq:
  "NewNode = \<lparr>parent = None, children = [],
     position = Vec3 0 0 0, rotation = \<lparr>W = 1, V = Vec3 0 0 0\<rparr>, scale = Vec3 1 1 1,
     transformValid = False,
     transform = Mat4 0 0 0 0 0 0 0 0 0 0 0 0 0 0 0 0\<rparr>"
  by (simp add: NewNode_def Init_def zero_Node_def Iden_def Let_def)

theorem getTransform_is_TRS_witness:
  "cache_coherent NewNode
   \<and> fst (getTransform (foldl call NewNode
        [Mutate (Call_TranslateX 1), Query, Mutate (Call_SetScale 2 2 2),
         Mutate (Call_SetRotation \<lparr>W = 0, V = Vec3 0 1 0\<rparr>), Mutate (Call_TranslateZ 3)])) =
       Mat4 (- 2) 0 0 0 0 2 0 0 0 0 (- 2) 0 1 0 3 1"
proof -
  let ?cs = "[Mutate (Call_TranslateX 1), Query, Mutate (Call_SetScale 2 2 2),
         Mutate (Call_SetRotation \<lparr>W = 0, V = Vec3 0 1 0\<rparr>), Mutate (Call_TranslateZ 3)]"
  have c: "cache_coherent NewNode"
    by (rule cache_coherent_NewNode)
  have n: "foldl call NewNode ?cs =
      \<lparr>parent = None, children = [],
       position = Vec3 1 0 3, rotation = \<lparr>W = 0, V = Vec3 0 1 0\<rparr>, scale = Vec3 2 2 2,
       transformValid = False,
       transform = Mat4 1 0 0 0 0 1 0 0 0 0 1 0 1 0 0 1\<rparr>"
    by (simp add: NewNode_eq getTransform_def Let_def TranslateX_def TranslateZ_def SetScale_def
        SetRotation_def SetTranslateVec3_def RotateQuat_def ScaleVec3_def Quaternion_Mat4_def)
  have e: "spec_TRS (position (foldl call NewNode ?cs)) (rotation (foldl call NewNode ?cs))
             (scale (foldl call NewNode ?cs)) = Mat4 (- 2) 0 0 0 0 2 0 0 0 0 (- 2) 0 1 0 3 1"
    unfolding n by (simp add: spec_TRS_def spec_T_def spec_R_def spec_S_def Quaternion_Mat4_def)
  from c trans [OF getTransform_is_TRS [OF c] e] show ?thesis
    by (rule conjI)
qed

section \<open>Writing through the accessors' pointers\<close>

text \<open>
  C10. The pointers returned by \<open>GetPosition\<close>, \<open>GetRotation\<close> and \<open>GetScale\<close> designate the
  node's own fields; a write through one of them changes the field and leaves the flag
  and the cached matrix as they were. So after a query, a write through the pointer of
  \<open>GetPosition\<close> and a second query, the matrix returned is the old one, which is not
  the composition of the node's current position, rotation and scale.
\<close>

theorem accessor_write_keeps_stale_cache:
  "load_Vec3 n (GetPosition n) = position n
   \<and> load_Quaternion n (GetRotation n) = rotation n
   \<and> load_Vec3 n (GetScale n) = scale n
   \<and> store_Vec3 n (GetPosition n) v = n\<lparr>position := v\<rparr>
   \<and> store_Quaternion n (GetRotation n) q = n\<lparr>rotation := q\<rparr>
   \<and> store_Vec3 n (GetScale n) v = n\<lparr>scale := v\<rparr>
   \<and> transformValid (store_Vec3 n p v) = transformValid n
   \<and> transform (store_Vec3 n p v) = transform n
   \<and> transformValid (store_Quaternion n r q) = transformValid n
   \<and> transform (store_Quaternion n r q) = transform n
   \<and> (let n1 = snd (getTransform NewNode);
            n2 = store_Vec3 n1 (GetPosition n1) (Vec3 1 0 0)
        in position n2 = Vec3 1 0 0
         \<and> fst (getTransform n2) = fst (getTransform NewNode)
         \<and> fst (getTransform n2) = Ident4
         \<and> spec_TRS (position n2) (rotation n2) (scale n2) =
               Mat4 1 0 0 0 0 1 0 0 0 0 1 0 1 0 0 1
         \<and> fst (getTransform n2) \<noteq> spec_TRS (position n2) (rotation n2) (scale n2))"
proof -
  have ptr: "p = Addr_position \<or> p = Addr_scale"
    by (cases p) simp_all
  have r: "r = Addr_rotation"
    by (cases r) simp
  define n2 where
    "n2 = store_Vec3 (snd (getTransform NewNode)) (GetPosition (snd (getTransform NewNode)))
            (Vec3 1 0 0)"
  have stale: "fst (getTransform n2) = Ident4"
    by (simp add: n2_def getTransform_NewNode GetPosition_def getTransform_valid)
  have old: "fst (getTransform NewNode) = Ident4"
    by (simp add: getTransform_NewNode)
  have pos: "position n2 = Vec3 1 0 0" "rotation n2 = rotation NewNode" "scale n2 = scale NewNode"
    by (simp_all add: n2_def GetPosition_def getTransform_TRS_fields)
  have trs: "spec_TRS (position n2) (rotation n2) (scale n2) =
         Mat4 1 0 0 0 0 1 0 0 0 0 1 0 1 0 0 1"
    by (simp add: pos NewNode_fields spec_TRS_def spec_T_def spec_R_def spec_S_def
        Quaternion_Mat4_def)
  have ne: "fst (getTransform n2) \<noteq> spec_TRS (position n2) (rotation n2) (scale n2)"
    by (simp add: stale trs Ident4_def)
  have scenario: "let n1 = snd (getTransform NewNode);
            n2 = store_Vec3 n1 (GetPosition n1) (Vec3 1 0 0)
        in position n2 = Vec3 1 0 0
         \<and> fst (getTransform n2) = fst (getTransform NewNode)
         \<and> fst (getTransform n2) = Ident4
         \<and> spec_TRS (position n2) (rotation n2) (scale n2) =
               Mat4 1 0 0 0 0 1 0 0 0 0 1 0 1 0 0 1
         \<and> fst (getTransform n2) \<noteq> spec_TRS (position n2) (rotation n2) (scale n2)"
    unfolding Let_def n2_def [symmetric]
    using stale old pos(1) trs ne by (intro conjI) simp_all
  have fields:
    "load_Vec3 n (GetPosition n) = position n"
    "load_Quaternion n (GetRotation n) = rotation n"
    "load_Vec3 n (GetScale n) = scale n"
    "store_Vec3 n (GetPosition n) v = n\<lparr>position := v\<rparr>"
    "store_Quaternion n (GetRotation n) q = n\<lparr>rotation := q\<rparr>"
    "store_Vec3 n (GetScale n) v = n\<lparr>scale := v\<rparr>"
    by (simp_all add: GetPosition_def GetRotation_def GetScale_def)
  have kept:
    "transformValid (store_Vec3 n p v) = transformValid n"
    "transform (store_Vec3 n p v) = transform n"
    "transformValid (store_Quaternion n r q) = transformValid n"
    "transform (store_Quaternion n r q) = transform n"
    using ptr r by auto
  from fields kept scenario show ?thesis
    by (intro conjI)
qed

section \<open>Composition of rotations\<close>

lemma Quaternion_MulWith_eq_Mul: "Quaternion_MulWith q1 q2 = Quaternion_Mul q1 q2"
  by (cases "V q1"; cases "V q2")
     (simp add: Quaternion_MulWith_def Quaternion_Mul_def Vec3_CrossOf_def Vec3_AddScaledVec_def
        Vec3_MulOf_def Vec3_AddOf_def Let_def)

lemma Quaternion_Mul_hamilton: "Quaternion_Mul a b = hamilton a b"
  by (cases "V a"; cases "V b")
     (simp add: Quaternion_Mul_def hamilton_def Vec3_CrossOf_def Vec3_MulOf_def Vec3_AddOf_def
        Let_def algebra_simps)

lemma QuatRotate_pi: "QuatRotate pi axis = \<lparr>W = 0, V = axis\<rparr>"
  by (cases axis) (simp add: QuatRotate_def Sin_def Cos_def Let_def)

text \<open>
  C3, as stated, fails. Start from a new node, turn it by \<open>\<pi>\<close> around the x axis (its
  rotation is then the quaternion \<open>i\<close>) and call \<open>RotateAroundAxis\<close> with the y axis and
  the angle \<open>\<pi>\<close>, whose quaternion \<open>q\<close> is \<open>j\<close>. The node's rotation becomes \<open>i * j = k\<close>,
  and not \<open>q * r = j * i = - k\<close>.
\<close>

theorem RotateAroundAxis_not_q_times_r:
  "rotation (RotateAroundAxis (RotateX NewNode pi) (Vec3 0 1 0) pi) \<noteq>
     Quaternion_Mul (QuatRotate pi (Vec3 0 1 0)) (rotation (RotateX NewNode pi))"
  by (simp add: RotateAroundAxis_def RotateX_def QuatRotate_pi NewNode_fields
      Quaternion_MulWith_eq_Mul Quaternion_Mul_def Vec3_CrossOf_def Vec3_MulOf_def
      Vec3_AddOf_def Let_def)

text \<open>
  C3, amended. \<open>RotateAroundAxis(axis, angle)\<close> multiplies the existing rotation \<open>r\<close> on the
  right by \<open>q = QuatRotate(angle, axis)\<close>: afterwards the rotation is \<open>r * q\<close>, the
  Hamilton product with the existing rotation as left operand and the new quaternion as
  right operand.
\<close>

theorem RotateAroundAxis_is_r_times_q:
  "rotation (RotateAroundAxis n axis angle) =
     Quaternion_Mul (rotation n) (QuatRotate angle axis)
   \<and> Quaternion_Mul (rotation n) (QuatRotate angle axis) =
     hamilton (rotation n) (QuatRotate angle axis)"
  by (simp add: RotateAroundAxis_def Let_def Quaternion_MulWith_eq_Mul Quaternion_Mul_hamilton)

section \<open>Rotation of a vector\<close>







section \<open>Euler angles: the rotation order\<close>

lemma orders_distinct:
  "distinct [XYX, XYZ, XZX, XZY, YXY, YXZ, YZY, YZX, ZYZ, ZYX, ZXZ, ZXY]"
  by (simp add: XYX_def XYZ_def XZX_def XZY_def YXY_def YXZ_def YZY_def YZX_def ZYZ_def
      ZYX_def ZXZ_def ZXY_def)

text \<open>
  C9. \<open>AnglesToQuat\<close> panics exactly when \<open>order\<close> is none of the twelve constants
  \<open>XYX\<close>, ..., \<open>ZXY\<close> (which are the twelve distinct values 0, ..., 11); for each of the
  twelve it returns a quaternion.
\<close>

theorem AnglesToQuat_panics_iff_invalid_order:
  "(AnglesToQuat angle1 angle2 angle3 order = Inl (Panic ''Unsupported rotation order''))
     = (order \<notin> {XYX, XYZ, XZX, XZY, YXY, YXZ, YZY, YZX, ZYZ, ZYX, ZXZ, ZXY})
   \<and> (\<exists>q. AnglesToQuat angle1 angle2 angle3 order = Inr q)
     = (order \<in> {XYX, XYZ, XZX, XZY, YXY, YXZ, YZY, YZX, ZYZ, ZYX, ZXZ, ZXY})
   \<and> {XYX, XYZ, XZX, XZY, YXY, YXZ, YZY, YZX, ZYZ, ZYX, ZXZ, ZXY} = {0 .. 11}"
proof -
  have set: "{XYX, XYZ, XZX, XZY, YXY, YXZ, YZY, YZX, ZYZ, ZYX, ZXZ, ZXY} = {0 .. 11}"
    unfolding XYX_def XYZ_def XZX_def XZY_def YXY_def YXZ_def YZY_def YZX_def ZYZ_def
      ZYX_def ZXZ_def ZXY_def
    by (auto; presburger)
  have panic: "(AnglesToQuat angle1 angle2 angle3 order = Inl (Panic ''Unsupported rotation order''))
     = (order \<notin> {XYX, XYZ, XZX, XZY, YXY, YXZ, YZY, YZX, ZYZ, ZYX, ZXZ, ZXY})"
    by (simp add: AnglesToQuat_def Sincos_def Let_def)
  have ok: "(\<exists>q. AnglesToQuat angle1 angle2 angle3 order = Inr q)
     = (order \<in> {XYX, XYZ, XZX, XZY, YXY, YXZ, YZY, YZX, ZYZ, ZYX, ZXZ, ZXY})"
    by (simp add: AnglesToQuat_def Sincos_def Let_def)
  from panic ok set show ?thesis
    by (intro conjI)
qed

section \<open>Inverses of the square matrices\<close>

lemma numerically_nonzero:
  "FloatEqual 0 0 \<Longrightarrow> \<not> FloatEqual d 0 \<Longrightarrow> d \<noteq> (0::real)"
  by auto

lemma Mat2_right_inverse:
  assumes "Mat2_Det m \<noteq> 0" and "\<not> FloatEqual (Mat2_Det m) 0"
  shows "Mat2_Mul2 m (Mat2_Inverse FloatEqual m) = Ident2"
proof (cases m)
  case (Mat2 m0 m1 m2 m3)
  define d where "d = m0 * m3 - m1 * m2"
  have d: "d \<noteq> 0" "\<not> FloatEqual d 0"
    using assms by (simp_all add: Mat2 d_def)
  have "(m0 * m3 - m2 * m1) / d = 1" and "(m3 * m0 - m1 * m2) / d = 1"
    using d(1) by (simp_all add: d_def mult.commute)
  then have "m0 * m3 / d - m2 * m1 / d = 1" and "m3 * m0 / d - m1 * m2 / d = 1"
    by (simp_all add: diff_divide_distrib)
  with d show ?thesis
    by (simp add: Mat2 Ident2_def Let_def d_def [symmetric])
qed

lemma Mat3_Mul3_retMat:
  "Mat3_Mul3 m (Mat3_Inverse_retMat m) = Mat3_Mul Ident3 (Mat3_Det m)"
  by (cases m) (simp add: Ident3_def algebra_simps)

lemma Mat3_Mul3_Mul: "Mat3_Mul3 a (Mat3_Mul b c) = Mat3_Mul (Mat3_Mul3 a b) c"
  by (cases a; cases b) (simp add: algebra_simps)

lemma Mat3_Mul_Ident3_cancel: "d \<noteq> 0 \<Longrightarrow> Mat3_Mul (Mat3_Mul Ident3 d) (1 / d) = Ident3"
  by (simp add: Ident3_def)

lemma Mat3_right_inverse:
  "Mat3_Det m \<noteq> 0 \<Longrightarrow> \<not> FloatEqual (Mat3_Det m) 0 \<Longrightarrow>
     Mat3_Mul3 m (Mat3_Inverse FloatEqual m) = Ident3"
  by (simp add: Mat3_Inverse_def Let_def Mat3_Mul3_Mul Mat3_Mul3_retMat Mat3_Mul_Ident3_cancel)

lemma Mat4_Mul4_retMat:
  "Mat4_Mul4 m (Mat4_Inverse_retMat m) = Mat4_Mul Ident4 (Mat4_Det m)"
proof (cases m)
  case (Mat4 v0 v1 v2 v3 v4 v5 v6 v7 v8 v9 v10 v11 v12 v13 v14 v15)
  show ?thesis
    unfolding Mat4 Ident4_def Mat4_Inverse_retMat_def Let_def Mat4.case Mat4_Mul4.simps
      Mat4_Mul.simps Mat4_Det.simps Mat4.inject
    by (intro conjI; simp add: algebra_simps)
qed

lemma Mat4_Mul4_Mul: "Mat4_Mul4 a (Mat4_Mul b c) = Mat4_Mul (Mat4_Mul4 a b) c"
  by (cases a; cases b) (simp add: algebra_simps)

lemma Mat4_Mul_Ident4_cancel: "d \<noteq> 0 \<Longrightarrow> Mat4_Mul (Mat4_Mul Ident4 d) (1 / d) = Ident4"
  by (simp add: Ident4_def)

lemma Mat4_right_inverse:
  "Mat4_Det m \<noteq> 0 \<Longrightarrow> \<not> FloatEqual (Mat4_Det m) 0 \<Longrightarrow>
     Mat4_Mul4 m (Mat4_Inverse FloatEqual m) = Ident4"
  by (simp add: Mat4_Inverse_def Let_def Mat4_Mul4_Mul Mat4_Mul4_retMat Mat4_Mul_Ident4_cancel)

section \<open>The round trip in \<open>float32\<close>\<close>






section \<open>Singular matrices\<close>

lemma Mat2_Mul2_zero: "Mat2_Mul2 m (Mat2 0 0 0 0) = Mat2 0 0 0 0"
  by (cases m) simp

lemma Mat3_Mul3_zero: "Mat3_Mul3 m (Mat3 0 0 0 0 0 0 0 0 0) = Mat3 0 0 0 0 0 0 0 0 0"
  by (cases m) simp

lemma Mat4_Mul4_zero:
  "Mat4_Mul4 m (Mat4 0 0 0 0 0 0 0 0 0 0 0 0 0 0 0 0) = Mat4 0 0 0 0 0 0 0 0 0 0 0 0 0 0 0 0"
  by (cases m) simp

lemma Mat2_Inverse_nonzero:
  assumes "FloatEqual 0 0" and "\<not> FloatEqual (Mat2_Det m) 0"
  shows "Mat2_Inverse FloatEqual m \<noteq> Mat2 0 0 0 0"
proof
  assume "Mat2_Inverse FloatEqual m = Mat2 0 0 0 0"
  with Mat2_right_inverse [of m FloatEqual, OF numerically_nonzero [of FloatEqual "Mat2_Det m", OF assms] assms(2)]
  show False by (simp add: Mat2_Mul2_zero Ident2_def)
qed

lemma Mat3_Inverse_nonzero:
  assumes "FloatEqual 0 0" and "\<not> FloatEqual (Mat3_Det m) 0"
  shows "Mat3_Inverse FloatEqual m \<noteq> Mat3 0 0 0 0 0 0 0 0 0"
proof
  assume "Mat3_Inverse FloatEqual m = Mat3 0 0 0 0 0 0 0 0 0"
  with Mat3_right_inverse [of m FloatEqual, OF numerically_nonzero [of FloatEqual "Mat3_Det m", OF assms] assms(2)]
  show False by (simp add: Mat3_Mul3_zero Ident3_def)
qed

lemma Mat4_Inverse_nonzero:
  assumes "FloatEqual 0 0" and "\<not> FloatEqual (Mat4_Det m) 0"
  shows "Mat4_Inverse FloatEqual m \<noteq> Mat4 0 0 0 0 0 0 0 0 0 0 0 0 0 0 0 0"
proof
  assume "Mat4_Inverse FloatEqual m = Mat4 0 0 0 0 0 0 0 0 0 0 0 0 0 0 0 0"
  with Mat4_right_inverse [of m FloatEqual, OF numerically_nonzero [of FloatEqual "Mat4_Det m", OF assms] assms(2)]
  show False by (simp add: Mat4_Mul4_zero Ident4_def)
qed

text \<open>
  C5. When the determinant is numerically zero (\<open>FloatEqual(det, 0)\<close> holds), \<open>Inverse\<close>
  returns the matrix of zeros; \<open>Inverse\<close> is a total function that returns a matrix and no
  error. When the determinant is not numerically zero, \<open>Inverse\<close> returns the matrix of
  cofactors scaled by \<open>1 / det\<close>, and, if \<open>FloatEqual\<close> holds of 0 and 0, this is not the
  matrix of zeros.
\<close>

theorem inverse_of_singular_is_zero:
  "(FloatEqual (Mat2_Det a) 0 \<longrightarrow> Mat2_Inverse FloatEqual a = Mat2 0 0 0 0)
   \<and> (FloatEqual (Mat3_Det b) 0 \<longrightarrow> Mat3_Inverse FloatEqual b = Mat3 0 0 0 0 0 0 0 0 0)
   \<and> (FloatEqual (Mat4_Det c) 0 \<longrightarrow>
        Mat4_Inverse FloatEqual c = Mat4 0 0 0 0 0 0 0 0 0 0 0 0 0 0 0 0)
   \<and> (\<not> FloatEqual (Mat2_Det (Mat2 m0 m1 m2 m3)) 0 \<longrightarrow>
        Mat2_Inverse FloatEqual (Mat2 m0 m1 m2 m3) =
          Mat2 (m3 * (1 / Mat2_Det (Mat2 m0 m1 m2 m3))) (- m1 * (1 / Mat2_Det (Mat2 m0 m1 m2 m3)))
               (- m2 * (1 / Mat2_Det (Mat2 m0 m1 m2 m3))) (m0 * (1 / Mat2_Det (Mat2 m0 m1 m2 m3))))
   \<and> (\<not> FloatEqual (Mat3_Det b) 0 \<longrightarrow>
        Mat3_Inverse FloatEqual b = Mat3_Mul (Mat3_Inverse_retMat b) (1 / Mat3_Det b))
   \<and> (\<not> FloatEqual (Mat4_Det c) 0 \<longrightarrow>
        Mat4_Inverse FloatEqual c = Mat4_Mul (Mat4_Inverse_retMat c) (1 / Mat4_Det c))
   \<and> (FloatEqual 0 0 \<and> \<not> FloatEqual (Mat2_Det a) 0 \<longrightarrow>
        Mat2_Inverse FloatEqual a \<noteq> Mat2 0 0 0 0)
   \<and> (FloatEqual 0 0 \<and> \<not> FloatEqual (Mat3_Det b) 0 \<longrightarrow>
        Mat3_Inverse FloatEqual b \<noteq> Mat3 0 0 0 0 0 0 0 0 0)
   \<and> (FloatEqual 0 0 \<and> \<not> FloatEqual (Mat4_Det c) 0 \<longrightarrow>
        Mat4_Inverse FloatEqual c \<noteq> Mat4 0 0 0 0 0 0 0 0 0 0 0 0 0 0 0 0)"
proof -
  have z2: "FloatEqual (Mat2_Det a) 0 \<longrightarrow> Mat2_Inverse FloatEqual a = Mat2 0 0 0 0"
    by (cases a) (simp add: Let_def)
  have z3: "FloatEqual (Mat3_Det b) 0 \<longrightarrow> Mat3_Inverse FloatEqual b = Mat3 0 0 0 0 0 0 0 0 0"
    by (simp add: Mat3_Inverse_def Let_def)
  have z4: "FloatEqual (Mat4_Det c) 0 \<longrightarrow>
        Mat4_Inverse FloatEqual c = Mat4 0 0 0 0 0 0 0 0 0 0 0 0 0 0 0 0"
    by (simp add: Mat4_Inverse_def Let_def)
  have n2: "\<not> FloatEqual (Mat2_Det (Mat2 m0 m1 m2 m3)) 0 \<longrightarrow>
        Mat2_Inverse FloatEqual (Mat2 m0 m1 m2 m3) =
          Mat2 (m3 * (1 / Mat2_Det (Mat2 m0 m1 m2 m3))) (- m1 * (1 / Mat2_Det (Mat2 m0 m1 m2 m3)))
               (- m2 * (1 / Mat2_Det (Mat2 m0 m1 m2 m3))) (m0 * (1 / Mat2_Det (Mat2 m0 m1 m2 m3)))"
    by (simp add: Let_def)
  have n3: "\<not> FloatEqual (Mat3_Det b) 0 \<longrightarrow>
        Mat3_Inverse FloatEqual b = Mat3_Mul (Mat3_Inverse_retMat b) (1 / Mat3_Det b)"
    by (simp add: Mat3_Inverse_def Let_def)
  have n4: "\<not> FloatEqual (Mat4_Det c) 0 \<longrightarrow>
        Mat4_Inverse FloatEqual c = Mat4_Mul (Mat4_Inverse_retMat c) (1 / Mat4_Det c)"
    by (simp add: Mat4_Inverse_def Let_def)
  from z2 z3 z4 n2 n3 n4 show ?thesis
    using Mat2_Inverse_nonzero [of FloatEqual a] Mat3_Inverse_nonzero [of FloatEqual b]
      Mat4_Inverse_nonzero [of FloatEqual c]
    by (intro conjI impI) blast+
qed

theorem inverse_of_singular_is_zero_witness:
  "(\<lambda>a b. \<bar>a - b\<bar> < 1 / 10 ^ 6) (Mat2_Det (Mat2 1 2 2 4)) 0
   \<and> Mat2_Inverse (\<lambda>a b. \<bar>a - b\<bar> < 1 / 10 ^ 6) (Mat2 1 2 2 4) = Mat2 0 0 0 0
   \<and> (\<lambda>a b. \<bar>a - b\<bar> < 1 / 10 ^ 6) (Mat3_Det (Mat3 1 2 3 2 4 6 0 0 1)) 0
   \<and> Mat3_Inverse (\<lambda>a b. \<bar>a - b\<bar> < 1 / 10 ^ 6) (Mat3 1 2 3 2 4 6 0 0 1) =
        Mat3 0 0 0 0 0 0 0 0 0
   \<and> (\<lambda>a b. \<bar>a - b\<bar> < 1 / 10 ^ 6) (Mat4_Det (Mat4 1 0 0 0 0 0 0 0 0 0 1 0 3 4 5 1)) 0
   \<and> Mat4_Inverse (\<lambda>a b. \<bar>a - b\<bar> < 1 / 10 ^ 6) (Mat4 1 0 0 0 0 0 0 0 0 0 1 0 3 4 5 1) =
        Mat4 0 0 0 0 0 0 0 0 0 0 0 0 0 0 0 0
   \<and> (\<lambda>a b. \<bar>a - b\<bar> < 1 / 10 ^ 6) 0 (0::real)
   \<and> \<not> (\<lambda>a b. \<bar>a - b\<bar> < 1 / 10 ^ 6) (Mat2_Det (Mat2 1 2 3 4)) 0
   \<and> Mat2_Inverse (\<lambda>a b. \<bar>a - b\<bar> < 1 / 10 ^ 6) (Mat2 1 2 3 4) = Mat2 (- 2) 1 (3 / 2) (- 1 / 2)
   \<and> \<not> (\<lambda>a b. \<bar>a - b\<bar> < 1 / 10 ^ 6) (Mat3_Det (Mat3 2 0 0 0 1 1 0 0 1)) 0
   \<and> Mat3_Inverse (\<lambda>a b. \<bar>a - b\<bar> < 1 / 10 ^ 6) (Mat3 2 0 0 0 1 1 0 0 1) =
        Mat3 (1 / 2) 0 0 0 1 (- 1) 0 0 1
   \<and> \<not> (\<lambda>a b. \<bar>a - b\<bar> < 1 / 10 ^ 6) (Mat4_Det (Mat4 1 0 0 0 0 2 0 0 0 0 1 0 3 4 5 1)) 0
   \<and> Mat4_Inverse (\<lambda>a b. \<bar>a - b\<bar> < 1 / 10 ^ 6) (Mat4 1 0 0 0 0 2 0 0 0 0 1 0 3 4 5 1) =
        Mat4 1 0 0 0 0 (1 / 2) 0 0 0 0 1 0 (- 3) (- 2) (- 5) 1"
  using inverse_of_singular_is_zero [of "\<lambda>a b. \<bar>a - b\<bar> < 1 / 10 ^ 6" "Mat2 1 2 2 4"
      "Mat3 1 2 3 2 4 6 0 0 1" "Mat4 1 0 0 0 0 0 0 0 0 0 1 0 3 4 5 1" 1 2 3 4]
    inverse_of_singular_is_zero [of "\<lambda>a b. \<bar>a - b\<bar> < 1 / 10 ^ 6" "Mat2 1 2 3 4"
      "Mat3 2 0 0 0 1 1 0 0 1" "Mat4 1 0 0 0 0 2 0 0 0 0 1 0 3 4 5 1" 1 2 3 4]
  by (simp add: Mat3_Inverse_def Mat4_Inverse_def Mat4_Inverse_retMat_def Let_def)

section \<open>The inverse of a 2x3 matrix\<close>

text \<open>
  C6 fails on the code. \<open>Mat2x3.Inverse\<close> stores \<open>-m1[1]\<close> where the inverse of the affine
  matrix has \<open>-m1[2]\<close>, and its translation column starts with \<open>m1[1]*m1[5]\<close> where the
  inverse has \<open>m1[2]*m1[5]\<close>. On the shear \<open>x' = x + y, y' = y\<close>, whose determinant is 1,
  \<open>Inverse\<close> returns the identity, and the product of the shear and that is the shear, not
  the identity.
\<close>

theorem Mat2x3_Inverse_of_shear:
  assumes "\<not> FloatEqual 1 0"
  shows "Mat2x3_Det (Mat2x3 1 0 1 1 0 0) = 1
       \<and> Mat2x3_Inverse FloatEqual (Mat2x3 1 0 1 1 0 0) = Mat2x3 1 0 0 1 0 0
       \<and> Mat2x3_Mat3 (Mat2x3_Mul2x3 (Mat2x3 1 0 1 1 0 0)
            (Mat2x3_Inverse FloatEqual (Mat2x3 1 0 1 1 0 0))) = Mat3 1 0 0 1 1 0 0 0 1
       \<and> Mat2x3_Mat3 (Mat2x3_Mul2x3 (Mat2x3 1 0 1 1 0 0)
            (Mat2x3_Inverse FloatEqual (Mat2x3 1 0 1 1 0 0))) \<noteq> Ident3"
  using assms by (simp add: Let_def Ident3_def)

theorem Mat2x3_Inverse_of_shear_witness:
  "\<not> (\<lambda>a b. \<bar>a - b\<bar> < 1 / 10 ^ 6) 1 (0::real)
   \<and> Mat2x3_Inverse (\<lambda>a b. \<bar>a - b\<bar> < 1 / 10 ^ 6) (Mat2x3 1 0 1 1 0 0) = Mat2x3 1 0 0 1 0 0
   \<and> Mat2x3_Mat3 (Mat2x3_Mul2x3 (Mat2x3 1 0 1 1 0 0)
        (Mat2x3_Inverse (\<lambda>a b. \<bar>a - b\<bar> < 1 / 10 ^ 6) (Mat2x3 1 0 1 1 0 0))) \<noteq> Ident3"
  using Mat2x3_Inverse_of_shear [of "\<lambda>a b. \<bar>a - b\<bar> < 1 / 10 ^ 6"]
  by simp

section \<open>Spherical interpolation\<close>

text \<open>
  C7 fails on the code for opposite quaternions. Let \<open>FloatEqual\<close> hold of 1 and 1 and of 0
  and 0, and not of 1 and 0. For the unit quaternions \<open>q1 = 1\<close> and \<open>q2 = - 1\<close> the
  difference \<open>n2 - n1 * dot\<close> is zero, \<open>Normalized\<close> replaces it by the identity quaternion,
  and \<open>QuatSlerp(q1, q2, 1/4)\<close> is \<open>cos(\<pi>/4) + sin(\<pi>/4) = \<surd>2\<close>, of length \<open>\<surd>2\<close> and not 1.
\<close>

theorem QuatSlerp_opposite_not_unit:
  assumes "FloatEqual 1 1" and "FloatEqual 0 0" and "\<not> FloatEqual 1 0"
  shows "Quaternion_Len \<lparr>W = 1, V = Vec3 0 0 0\<rparr> = 1
       \<and> Quaternion_Len \<lparr>W = - 1, V = Vec3 0 0 0\<rparr> = 1
       \<and> QuatSlerp FloatEqual \<lparr>W = 1, V = Vec3 0 0 0\<rparr> \<lparr>W = - 1, V = Vec3 0 0 0\<rparr> (1 / 4) =
           \<lparr>W = sqrt 2, V = Vec3 0 0 0\<rparr>
       \<and> Quaternion_Len
           (QuatSlerp FloatEqual \<lparr>W = 1, V = Vec3 0 0 0\<rparr> \<lparr>W = - 1, V = Vec3 0 0 0\<rparr> (1 / 4)) =
           sqrt 2
       \<and> sqrt 2 \<noteq> (1::real)"
proof -
  let ?q1 = "\<lparr>W = 1, V = Vec3 0 0 0\<rparr>"
  let ?q2 = "\<lparr>W = - 1, V = Vec3 0 0 0\<rparr>"
  have l1: "Quaternion_Len ?q1 = 1" and l2: "Quaternion_Len ?q2 = 1"
    by (simp_all add: Quaternion_Len_def Sqrt_def)
  have n1: "Normalized FloatEqual ?q1 = ?q1" and n2: "Normalized FloatEqual ?q2 = ?q2"
    using assms(1) by (simp_all add: Normalized_def l1 l2)
  have dot: "Quaternion_Dot ?q1 ?q2 = - 1"
    by (simp add: Quaternion_Dot_def)
  have rel: "Normalized FloatEqual \<lparr>W = 0, V = Vec3 0 0 0\<rparr> = QuatIdent"
    using assms(2,3) by (simp add: Normalized_def Quaternion_Len_def Sqrt_def)
  have slerp: "QuatSlerp FloatEqual ?q1 ?q2 (1 / 4) = \<lparr>W = sqrt 2, V = Vec3 0 0 0\<rparr>"
    by (simp add: QuatSlerp_def n1 n2 dot Clamp_def Acos_def Cos_def Sin_def rel
        arccos_minus_1 cos_45 sin_45 QuatIdent_def Quaternion_Scale_def Quaternion_Sub_def
        Quaternion_Add_def Let_def)
  have len: "Quaternion_Len \<lparr>W = sqrt 2, V = Vec3 0 0 0\<rparr> = sqrt 2"
    by (simp add: Quaternion_Len_def Sqrt_def)
  have ne: "sqrt 2 \<noteq> (1::real)"
    by simp
  from l1 l2 slerp len ne show ?thesis
    by simp
qed

theorem QuatSlerp_opposite_not_unit_witness:
  "(\<lambda>a b. \<bar>a - b\<bar> < 1 / 10 ^ 6) 1 (1::real)
   \<and> (\<lambda>a b. \<bar>a - b\<bar> < 1 / 10 ^ 6) 0 (0::real)
   \<and> \<not> (\<lambda>a b. \<bar>a - b\<bar> < 1 / 10 ^ 6) 1 (0::real)
   \<and> Quaternion_Len
        (QuatSlerp (\<lambda>a b. \<bar>a - b\<bar> < 1 / 10 ^ 6) \<lparr>W = 1, V = Vec3 0 0 0\<rparr>
           \<lparr>W = - 1, V = Vec3 0 0 0\<rparr> (1 / 4)) = sqrt 2"
  using QuatSlerp_opposite_not_unit [of "\<lambda>a b. \<bar>a - b\<bar> < 1 / 10 ^ 6"]
  by (simp add: Quaternion_Len_def Sqrt_def)

end
